theory Spec2Isabelle
  imports Complex_Main
begin

section \<open>Dates and clocks\<close>

text \<open>
  A SQL \<open>DATE\<close> is a whole day; it is modelled as the number of days since 1970-01-01.
  \<open>date - date\<close> is then integer subtraction and \<open>CURRENT_DATE + INTERVAL '30 days'\<close>
  is \<open>current_date + 30\<close>. \<open>CURRENT_DATE\<close> is the reading of the database clock: it is
  an argument of every model function whose query mentions it, and it is never part of
  a request.
\<close>

type_synonym date = int

definition day_2026_02_19 :: date where
  "day_2026_02_19 = 20503"

section \<open>Status of a document: the backend query\<close>

text \<open>
  \<open>employee.go\<close>, \<open>EmployeeHandler.List\<close> and \<open>EmployeeHandler.GetByID\<close>:
  \<^verbatim>\<open>
  CASE
    WHEN pd.expiry_date IS NULL THEN 'none'
    WHEN pd.expiry_date < CURRENT_DATE THEN 'expired'
    WHEN pd.expiry_date <= CURRENT_DATE + INTERVAL '30 days' THEN 'expiring'
    ELSE 'valid'
  END AS doc_status,
  (pd.expiry_date - CURRENT_DATE) AS expiry_days_left
  \<close>
\<close>

definition doc_status :: "date \<Rightarrow> date option \<Rightarrow> string" where
  "doc_status current_date expiry =
     (case expiry of
        None \<Rightarrow> ''none''
      | Some e \<Rightarrow>
          if e < current_date then ''expired''
          else if e \<le> current_date + 30 then ''expiring''
          else ''valid'')"

definition expiry_days_left :: "date \<Rightarrow> date option \<Rightarrow> int option" where
  "expiry_days_left current_date expiry = map_option (\<lambda>e. e - current_date) expiry"

section \<open>Status of a document: the frontend helper\<close>

text \<open>
  \<open>getDaysUntil\<close> and \<open>getExpiryStatus\<close> of the frontend utilities. A JavaScript \<open>Date\<close>
  is a number of milliseconds since the epoch, or \<open>Invalid Date\<close> (here \<open>None\<close>) when the
  text does not parse; \<open>new Date()\<close> reads the browser clock, the argument \<open>now\<close> below.

  \<open>differenceInDays\<close> is a function of the date-fns library, not of this repository: it
  counts the full days between two instants on the local calendar of the browser's
  time zone. The two helpers take it as the argument \<open>differenceInDays\<close>, so that
  they are modelled for every time zone. On \<open>Invalid Date\<close> it returns NaN, every
  comparison with NaN is false, and \<open>getExpiryStatus\<close> falls through to its last
  \<open>return\<close>.
\<close>

type_synonym day_counter = "int \<Rightarrow> int \<Rightarrow> int"

definition getDaysUntil :: "day_counter \<Rightarrow> int \<Rightarrow> int option \<Rightarrow> int option" where
  "getDaysUntil differenceInDays now d = map_option (\<lambda>t. differenceInDays t now) d"

text \<open>
  What date-fns counts in a time zone whose offset from UTC never changes (UTC itself,
  or Asia/Dubai): there a local day is 86400000 milliseconds, the offsets of the two
  instants cancel, and the full days between them are the quotient of their
  difference, truncated towards zero. It is used where a status is evaluated at
  concrete instants; in a zone with daylight saving the count can differ by one.
\<close>

definition differenceInDays_fixed_offset :: day_counter where
  "differenceInDays_fixed_offset dateLeft dateRight =
     (let ms = dateLeft - dateRight
      in if 0 \<le> ms then ms div 86400000 else - ((- ms) div 86400000))"

definition getExpiryStatus :: "day_counter \<Rightarrow> int \<Rightarrow> int option \<Rightarrow> string" where
  "getExpiryStatus differenceInDays now expiryDate =
     (case getDaysUntil differenceInDays now expiryDate of
        None \<Rightarrow> ''valid''
      | Some daysLeft \<Rightarrow>
          if daysLeft < 0 then ''expired''
          else if daysLeft \<le> 7 then ''urgent''
          else if daysLeft \<le> 30 then ''warning''
          else ''valid'')"

section \<open>The lifecycle evaluator as the specification words it\<close>

text \<open>
  The specification's \<open>Evaluate(document, effectiveRule, asOfDate)\<close>, written from its
  five numbered steps, to be compared with \<open>doc_status\<close>. Of the document it reads
  whether the required fields are set and the expiry date; of the rule, the grace days.
\<close>

datatype LifecycleState = Incomplete | Valid | ExpiringSoon | InGrace | PenaltyActive

record DocumentRecord =
  required_fields_set :: bool
  expiryDate :: "date option"

definition Evaluate_spec :: "DocumentRecord \<Rightarrow> int \<Rightarrow> date \<Rightarrow> LifecycleState" where
  "Evaluate_spec doc graceDays asOfDate =
     (case expiryDate doc of
        None \<Rightarrow> Incomplete
      | Some e \<Rightarrow>
          if \<not> required_fields_set doc then Incomplete
          else if asOfDate > e + graceDays then PenaltyActive
          else if asOfDate > e then InGrace
          else if e - asOfDate \<le> 30 then ExpiringSoon
          else Valid)"

section \<open>The documents table\<close>

text \<open>
  \<open>database_setup.sql\<close> and migration \<open>004_primary_document.sql\<close>: a document row, with
  \<open>expiry_date\<close> nullable and \<open>is_primary BOOLEAN DEFAULT FALSE\<close>. Ids are UUIDs, kept as
  text as the handlers keep them. Timestamps are readings of the database clock
  (\<open>NOW()\<close>). Of the employees table only the primary key matters to the documents:
  \<open>documents.employee_id\<close> references it with \<open>ON DELETE CASCADE\<close>.

  A handler is a function from the tables and the request to the tables afterwards and
  the answer. Left out are the activity log, which the handlers append to after a
  successful write and never read; failures of the connection (begin, commit), which
  change no table; and the length limits of the text columns, whose violation makes a
  statement fail as a date that does not parse does.
\<close>

record document =
  doc_id :: string
  employee_id :: string
  document_type :: string
  expiry_date :: "date option"
  is_primary :: bool
  file_url :: string
  file_name :: string
  file_size :: int
  file_type :: string
  last_updated :: int
  created_at :: int

record database =
  employees :: "string list"
  documents :: "document list"

text \<open>
  A date arrives as JSON text. What the database makes of it is one of three things:
  a date, the empty string, or text that is no date; the last two make the statement
  that carries them fail.
\<close>

datatype date_text = DateText date | EmptyText | NotADate

definition to_date :: "date_text \<Rightarrow> date option" where
  "to_date t = (case t of DateText d \<Rightarrow> Some d | EmptyText \<Rightarrow> None | NotADate \<Rightarrow> None)"

text \<open>
  \<open>JSONError(w, status, message)\<close>, the validation answer of \<open>Create\<close>, and the two shapes
  of a successful answer.
\<close>

datatype http_error = JSONError nat string | ValidationFailed nat "(string \<times> string) list"

datatype response = JSONDocument nat document string | JSONMessage nat string

type_synonym outcome = "database \<times> (http_error + response)"

text \<open>
  \<open>INSERT INTO documents\<close>: the primary key and the foreign key are checked. A
  failing statement changes nothing.
\<close>

definition insert_document :: "database \<Rightarrow> document \<Rightarrow> database option" where
  "insert_document db d =
     (if doc_id d \<in> set (map doc_id (documents db)) then None
      else if employee_id d \<notin> set (employees db) then None
      else Some (db\<lparr>documents := documents db @ [d]\<rparr>))"

definition find_document :: "database \<Rightarrow> string \<Rightarrow> document option" where
  "find_document db i = find (\<lambda>d. doc_id d = i) (documents db)"

text \<open>
  \<open>docCols\<close>, the column list that every document query is built with, qualifies each
  column with the alias \<open>d\<close>: \<open>d.id, d.employee_id, d.document_type, ...\<close>. A statement
  resolves these names only if it declares that alias. \<open>SELECT ... FROM documents d\<close> and
  \<open>UPDATE documents d SET ...\<close> declare it. The two statements
  \<open>INSERT INTO documents (...) VALUES (...) RETURNING docCols\<close>, of \<open>Create\<close> and of
  \<open>Renew\<close>, declare no alias (where \<open>INSERT INTO employees AS e\<close>, of the employee
  handler, declares the one its column list uses): PostgreSQL refuses them when it
  analyses them, with a missing FROM-clause entry for table \<open>d\<close>, whatever the values and
  before any row is written.
\<close>

definition docCols_alias :: string where
  "docCols_alias = ''d''"

definition returning_resolves :: "string option \<Rightarrow> bool" where
  "returning_resolves declared_alias = (declared_alias = Some docCols_alias)"

definition insert_returning :: "string option \<Rightarrow> database \<Rightarrow> document \<Rightarrow> database option" where
  "insert_returning declared_alias db d =
     (if returning_resolves declared_alias then insert_document db d else None)"

subsection \<open>Create\<close>




subsection \<open>Update\<close>





subsection \<open>TogglePrimary\<close>

text \<open>
  \<open>DocumentHandler.TogglePrimary\<close>. The three \<open>UPDATE\<close> statements run in one
  transaction; every early return leaves through the deferred rollback.
\<close>

definition unset_primary_of_employee :: "string \<Rightarrow> document list \<Rightarrow> document list" where
  "unset_primary_of_employee e docs =
     map (\<lambda>d. if employee_id d = e \<and> is_primary d then d\<lparr>is_primary := False\<rparr> else d) docs"

definition set_primary_flag :: "string \<Rightarrow> bool \<Rightarrow> document list \<Rightarrow> document list" where
  "set_primary_flag i b docs = map (\<lambda>d. if doc_id d = i then d\<lparr>is_primary := b\<rparr> else d) docs"

definition TogglePrimary :: "database \<Rightarrow> string \<Rightarrow> outcome" where
  "TogglePrimary db i =
     (if i = [] then (db, Inl (JSONError 400 ''Document ID is required''))
      else case find_document db i of
        None \<Rightarrow> (db, Inl (JSONError 404 ''Document not found''))
      | Some d \<Rightarrow>
          let employeeID = employee_id d;
              expiryExists = (expiry_date d \<noteq> None);
              currentlyPrimary = is_primary d
          in if \<not> expiryExists
             then (db, Inl (JSONError 400 ''Cannot set as primary: document has no expiry date''))
             else if currentlyPrimary
             then (db\<lparr>documents := set_primary_flag i False (documents db)\<rparr>,
                   Inr (JSONMessage 200 ''Primary document updated successfully''))
             else (db\<lparr>documents :=
                        set_primary_flag i True
                          (unset_primary_of_employee employeeID (documents db))\<rparr>,
                   Inr (JSONMessage 200 ''Primary document updated successfully'')))"

subsection \<open>Delete\<close>


subsection \<open>Renew\<close>

record RenewRequest =
  rn_ExpiryDate :: date_text
  rn_FileURL :: string
  rn_FileName :: string
  rn_FileSize :: int
  rn_FileType :: string

text \<open>
  \<open>DocumentHandler.Renew\<close>: reads the old document, copies its employee, type and file
  fields (the request's file fields win where given), then in one transaction clears
  the employee's primary flag and inserts the renewed document as primary. Its
  \<open>INSERT\<close> declares no alias either: the statement fails, the handler answers 500 and
  the deferred rollback undoes the cleared flag.
\<close>

definition Renew :: "database \<Rightarrow> int \<Rightarrow> string \<Rightarrow> string \<Rightarrow> RenewRequest option \<Rightarrow> outcome" where
  "Renew db now new_id oldID body =
     (if oldID = [] then (db, Inl (JSONError 400 ''Document ID is required''))
      else case body of
        None \<Rightarrow> (db, Inl (JSONError 400 ''Invalid JSON body''))
      | Some req \<Rightarrow>
          if rn_ExpiryDate req = EmptyText
          then (db, Inl (JSONError 422 ''New expiry date is required''))
          else (case find_document db oldID of
            None \<Rightarrow> (db, Inl (JSONError 404 ''Original document not found''))
          | Some old \<Rightarrow>
              let employeeID = employee_id old;
                  docType = document_type old;
                  fileURL = (if rn_FileURL req \<noteq> [] then rn_FileURL req else file_url old);
                  fileName = (if rn_FileName req \<noteq> [] then rn_FileName req else file_name old);
                  fileSize = (if rn_FileSize req > 0 then rn_FileSize req else file_size old);
                  fileType = (if rn_FileType req \<noteq> [] then rn_FileType req else file_type old);
                  tx = db\<lparr>documents := unset_primary_of_employee employeeID (documents db)\<rparr>
              in (case to_date (rn_ExpiryDate req) of
                   None \<Rightarrow> (db, Inl (JSONError 500 ''Failed to create renewed document''))
                 | Some expiry \<Rightarrow>
                     let newDoc = \<lparr>doc_id = new_id, employee_id = employeeID,
                                   document_type = docType, expiry_date = Some expiry,
                                   is_primary = True,
                                   file_url = fileURL, file_name = fileName,
                                   file_size = fileSize, file_type = fileType,
                                   last_updated = now, created_at = now\<rparr>
                     in (case insert_returning None tx newDoc of
                          None \<Rightarrow> (db, Inl (JSONError 500 ''Failed to create renewed document''))
                        | Some db' \<Rightarrow>
                            (db', Inr (JSONDocument 201 newDoc
                                         ''Document renewed successfully''))))))"

subsection \<open>Employees\<close>



subsection \<open>Requests in sequence\<close>




subsection \<open>One primary document for each employee\<close>

text \<open>
  The bound that \<open>idx_documents_primary_per_employee\<close> states: no employee has two
  rows with \<open>is_primary = TRUE\<close>. The handlers are modelled without the index, so
  that the bound is a property of what they do, not of a check that would refuse them.
\<close>

definition primaries_of :: "string \<Rightarrow> document list \<Rightarrow> document list" where
  "primaries_of e docs = filter (\<lambda>d. employee_id d = e \<and> is_primary d) docs"


subsection \<open>Writers at the same time, and the unique index\<close>







section \<open>Status of an employee\<close>

text \<open>
  \<open>EmployeeHandler.List\<close> and \<open>EmployeeHandler.GetByID\<close> read the three status columns
  through \<open>LEFT JOIN documents pd ON pd.employee_id = e.id AND pd.is_primary = TRUE\<close>: one
  row for each primary document of the employee, and one row of NULLs when there is
  none. \<open>GetByID\<close> scans the first row. Of the answer only the three status columns
  are kept here; the filters, the sort and the paging of \<open>List\<close> select among employees
  and leave the columns of each as they are.
\<close>

record status_columns =
  docStatus :: string
  expiryDaysLeft :: "int option"
  primaryDocType :: "string option"

definition left_join_primary :: "document list \<Rightarrow> string \<Rightarrow> document option list" where
  "left_join_primary docs e =
     (case primaries_of e docs of [] \<Rightarrow> [None] | pd # pds \<Rightarrow> map Some (pd # pds))"

definition status_columns_of :: "date \<Rightarrow> document option \<Rightarrow> status_columns" where
  "status_columns_of current_date pd =
     \<lparr>docStatus = doc_status current_date (Option.bind pd expiry_date),
      expiryDaysLeft = expiry_days_left current_date (Option.bind pd expiry_date),
      primaryDocType = map_option document_type pd\<rparr>"

definition employee_status_rows :: "date \<Rightarrow> database \<Rightarrow> string \<Rightarrow> status_columns list" where
  "employee_status_rows current_date db e =
     (if e \<in> set (employees db)
      then map (status_columns_of current_date) (left_join_primary (documents db) e)
      else [])"

definition Employee_GetByID :: "date \<Rightarrow> database \<Rightarrow> string \<Rightarrow> http_error + status_columns" where
  "Employee_GetByID current_date db i =
     (if i = [] then Inl (JSONError 400 ''Employee ID is required'')
      else case employee_status_rows current_date db i of
        [] \<Rightarrow> Inl (JSONError 404 ''Employee not found'')
      | row # _ \<Rightarrow> Inr row)"

text \<open>
  The aggregate status as the specification words it, to be compared with the status
  columns: the state of highest priority over the employee's documents, under
  \<open>PenaltyActive > InGrace > ExpiringSoon > Incomplete > Valid\<close>.
\<close>

definition priority :: "LifecycleState \<Rightarrow> nat" where
  "priority s =
     (case s of PenaltyActive \<Rightarrow> 4 | InGrace \<Rightarrow> 3 | ExpiringSoon \<Rightarrow> 2 | Incomplete \<Rightarrow> 1 | Valid \<Rightarrow> 0)"

definition aggregate_spec :: "LifecycleState list \<Rightarrow> LifecycleState" where
  "aggregate_spec states = fold (\<lambda>s acc. if priority acc < priority s then s else acc) states Valid"

text \<open>
  A row of the documents table as the specification's evaluator reads it: every column
  but \<open>expiry_date\<close> is \<open>NOT NULL\<close>, so the required fields are set exactly when the
  expiry date is.
\<close>

definition as_DocumentRecord :: "document \<Rightarrow> DocumentRecord" where
  "as_DocumentRecord d =
     \<lparr>required_fields_set = (expiry_date d \<noteq> None), expiryDate = expiry_date d\<rparr>"

section \<open>Dashboard metrics\<close>

text \<open>
  \<open>DashboardHandler.GetMetrics\<close>: four \<open>COUNT(*)\<close> queries. The three document counters
  share \<open>is_primary = TRUE AND expiry_date IS NOT NULL\<close> and differ in the last conjunct
  of their \<open>WHERE\<close> clause; \<open>BETWEEN\<close> includes both ends. The handler sends the four
  queries one after the other, outside a transaction; the model evaluates them on one
  state of the tables and one reading of \<open>CURRENT_DATE\<close>, which is what they see when no
  write and no midnight falls between them.
\<close>

record DashboardMetrics =
  totalEmployees :: nat
  activeDocuments :: nat
  expiringSoon :: nat
  expired :: nat

definition tracked :: "document \<Rightarrow> bool" where
  "tracked d = (is_primary d \<and> expiry_date d \<noteq> None)"

definition where_active :: "date \<Rightarrow> document \<Rightarrow> bool" where
  "where_active current_date d =
     (is_primary d \<and> (case expiry_date d of None \<Rightarrow> False | Some e \<Rightarrow> e > current_date + 30))"

definition where_expiring_soon :: "date \<Rightarrow> document \<Rightarrow> bool" where
  "where_expiring_soon current_date d =
     (is_primary d \<and>
      (case expiry_date d of None \<Rightarrow> False | Some e \<Rightarrow> current_date \<le> e \<and> e \<le> current_date + 30))"

definition where_expired :: "date \<Rightarrow> document \<Rightarrow> bool" where
  "where_expired current_date d =
     (is_primary d \<and> (case expiry_date d of None \<Rightarrow> False | Some e \<Rightarrow> e < current_date))"

definition GetMetrics :: "date \<Rightarrow> database \<Rightarrow> DashboardMetrics" where
  "GetMetrics current_date db =
     \<lparr>totalEmployees = length (employees db),
      activeDocuments = length (filter (where_active current_date) (documents db)),
      expiringSoon = length (filter (where_expiring_soon current_date) (documents db)),
      expired = length (filter (where_expired current_date) (documents db))\<rparr>"

definition buckets :: "date \<Rightarrow> document \<Rightarrow> nat" where
  "buckets current_date d =
     (if where_active current_date d then 1 else 0)
     + (if where_expiring_soon current_date d then 1 else 0)
     + (if where_expired current_date d then 1 else 0)"

section \<open>The compliance rules table\<close>

text \<open>
  Migration \<open>007_admin_settings.sql\<close>: the \<open>compliance_rules\<close> table, its constraints and
  its seed. \<open>DECIMAL(10,2)\<close> amounts are rationals. \<open>company_id\<close> is NULL for a global rule.
\<close>

record compliance_rule =
  rule_id :: string
  company_id :: "string option"
  doc_type :: string
  grace_period_days :: int
  fine_per_day :: rat
  fine_type :: string
  fine_cap :: rat
  is_mandatory :: "bool option"

text \<open>
  A new row \<open>r\<close> is refused when a row \<open>x\<close> of the table stands in its way: the primary
  key; \<open>UNIQUE(company_id, doc_type)\<close>, under which two NULLs are never equal, so that
  it binds company rules only; and the partial unique index
  \<open>idx_compliance_rules_global_unique ON compliance_rules(doc_type) WHERE company_id IS NULL\<close>.
\<close>

definition violates :: "compliance_rule \<Rightarrow> compliance_rule \<Rightarrow> bool" where
  "violates r x =
     (rule_id x = rule_id r
      \<or> (company_id x \<noteq> None \<and> company_id x = company_id r \<and> doc_type x = doc_type r)
      \<or> (company_id x = None \<and> company_id r = None \<and> doc_type x = doc_type r))"

definition insert_rule ::
  "compliance_rule list \<Rightarrow> compliance_rule \<Rightarrow> compliance_rule list option" where
  "insert_rule rules r = (if list_ex (violates r) rules then None else Some (rules @ [r]))"

fun insert_rules ::
  "compliance_rule list \<Rightarrow> compliance_rule list \<Rightarrow> compliance_rule list option" where
  "insert_rules rules [] = Some rules"
| "insert_rules rules (r # rs) =
     (case insert_rule rules r of None \<Rightarrow> None | Some rules' \<Rightarrow> insert_rules rules' rs)"

text \<open>An \<open>UPDATE\<close> of the row with id \<open>i\<close> to the values of \<open>r\<close> (the id stays): the new
  values are checked against every other row.\<close>

definition update_rule ::
  "compliance_rule list \<Rightarrow> string \<Rightarrow> compliance_rule \<Rightarrow> compliance_rule list option" where
  "update_rule rules i r =
     (let r' = r\<lparr>rule_id := i\<rparr>
      in if list_ex (violates r') (filter (\<lambda>x. rule_id x \<noteq> i) rules) then None
         else Some (map (\<lambda>x. if rule_id x = i then r' else x) rules))"

definition delete_rule :: "compliance_rule list \<Rightarrow> string \<Rightarrow> compliance_rule list" where
  "delete_rule rules i = filter (\<lambda>x. rule_id x \<noteq> i) rules"

text \<open>\<open>company_id UUID REFERENCES companies(id) ON DELETE CASCADE\<close>: deleting a company
  deletes its rules.\<close>

definition delete_company :: "compliance_rule list \<Rightarrow> string \<Rightarrow> compliance_rule list" where
  "delete_company rules c = filter (\<lambda>x. company_id x \<noteq> Some c) rules"

text \<open>The seed: seven global rules, inserted by one statement, and only into an empty
  table. \<open>ids\<close> are the values \<open>gen_random_uuid()\<close> returns for the rows.\<close>

definition seed_values :: "(string \<times> int \<times> rat \<times> string \<times> rat) list" where
  "seed_values =
     [(''passport'', 0, 0, ''daily'', 0),
      (''visa'', 0, 50, ''daily'', 0),
      (''emirates_id'', 30, 20, ''daily'', 1000),
      (''work_permit'', 50, 500, ''one_time'', 500),
      (''health_insurance'', 0, 500, ''monthly'', 150000),
      (''iloe_insurance'', 0, 400, ''one_time'', 400),
      (''medical_fitness'', 0, 0, ''daily'', 0)]"

definition seed_row :: "string \<Rightarrow> string \<times> int \<times> rat \<times> string \<times> rat \<Rightarrow> compliance_rule" where
  "seed_row i v =
     (case v of (a, b, c, d, e) \<Rightarrow>
        \<lparr>rule_id = i, company_id = None, doc_type = a, grace_period_days = b,
         fine_per_day = c, fine_type = d, fine_cap = e, is_mandatory = None\<rparr>)"

definition seed_rules :: "compliance_rule list \<Rightarrow> string list \<Rightarrow> compliance_rule list" where
  "seed_rules rules ids =
     (if rules \<noteq> [] then rules
      else case insert_rules rules (map2 seed_row ids seed_values) of
             None \<Rightarrow> rules
           | Some rules' \<Rightarrow> rules')"

datatype statement =
    InsertRule compliance_rule
  | UpdateRule string compliance_rule
  | DeleteRule string
  | DeleteCompany string
  | SeedRules "string list"

text \<open>A statement that fails leaves the table as it was.\<close>

fun execute :: "compliance_rule list \<Rightarrow> statement \<Rightarrow> compliance_rule list" where
  "execute rules (InsertRule r) =
     (case insert_rule rules r of None \<Rightarrow> rules | Some rules' \<Rightarrow> rules')"
| "execute rules (UpdateRule i r) =
     (case update_rule rules i r of None \<Rightarrow> rules | Some rules' \<Rightarrow> rules')"
| "execute rules (DeleteRule i) = delete_rule rules i"
| "execute rules (DeleteCompany c) = delete_company rules c"
| "execute rules (SeedRules ids) = seed_rules rules ids"

definition execute_all :: "compliance_rule list \<Rightarrow> statement list \<Rightarrow> compliance_rule list" where
  "execute_all rules stmts = fold (\<lambda>s rs. execute rs s) stmts rules"

definition global_rules :: "string \<Rightarrow> compliance_rule list \<Rightarrow> compliance_rule list" where
  "global_rules t rules = filter (\<lambda>r. company_id r = None \<and> doc_type r = t) rules"

definition company_rules :: "string \<Rightarrow> string \<Rightarrow> compliance_rule list \<Rightarrow> compliance_rule list" where
  "company_rules c t rules = filter (\<lambda>r. company_id r = Some c \<and> doc_type r = t) rules"

section \<open>The fine calculator\<close>

text \<open>
  Modelled from the spec: the Fine Calculator (\<open>Accrue\<close>, section 4.3 of the
  specification) is not among the sources; only the table of rules it reads is, with
  its seed. A fine accrues in state \<open>PenaltyActive\<close> only. The days overdue beyond grace
  are floored at zero; the raw amount is the rate times those days (\<open>daily\<close>), the rate
  times the thirty-day months begun (\<open>monthly\<close>), or the rate (\<open>one_time\<close>); it is then
  clamped to \<open>[0, fineCap]\<close> if \<open>fineCap > 0\<close> and passed through if \<open>fineCap = 0\<close>.
\<close>

definition days_overdue_beyond_grace :: "date \<Rightarrow> int \<Rightarrow> date \<Rightarrow> int" where
  "days_overdue_beyond_grace expiry graceDays asOfDate = max 0 (asOfDate - (expiry + graceDays))"

definition raw_fine :: "compliance_rule \<Rightarrow> int \<Rightarrow> rat" where
  "raw_fine rule days =
     (if fine_type rule = ''daily'' then fine_per_day rule * of_int days
      else if fine_type rule = ''monthly'' then fine_per_day rule * of_int ((days + 29) div 30)
      else if fine_type rule = ''one_time'' then fine_per_day rule
      else 0)"

definition clamp_fine :: "rat \<Rightarrow> rat \<Rightarrow> rat" where
  "clamp_fine fineCap raw = (if fineCap > 0 then min fineCap (max 0 raw) else raw)"

definition Accrue :: "DocumentRecord \<Rightarrow> compliance_rule \<Rightarrow> LifecycleState \<Rightarrow> date \<Rightarrow> rat" where
  "Accrue doc rule lifecycleState asOfDate =
     (case expiryDate doc of
        None \<Rightarrow> 0
      | Some e \<Rightarrow>
          if lifecycleState = PenaltyActive
          then clamp_fine (fine_cap rule)
                 (raw_fine rule (days_overdue_beyond_grace e (grace_period_days rule) asOfDate))
          else 0)"

text \<open>
  Modelled from the spec: \<open>graceDaysRemaining = graceDays - (asOfDate - expiryDate)\<close> is
  exposed for a document in grace, and is 0 once the penalty is active (section 8); the
  specification gives it no value in the other states.
\<close>

definition graceDaysRemaining ::
  "DocumentRecord \<Rightarrow> compliance_rule \<Rightarrow> LifecycleState \<Rightarrow> date \<Rightarrow> int option" where
  "graceDaysRemaining doc rule lifecycleState asOfDate =
     (case expiryDate doc of
        None \<Rightarrow> None
      | Some e \<Rightarrow>
          if lifecycleState = InGrace then Some (grace_period_days rule - (asOfDate - e))
          else if lifecycleState = PenaltyActive then Some 0
          else None)"

section \<open>Well-formed tables\<close>


definition rule_key :: "compliance_rule \<Rightarrow> string option \<times> string" where
  "rule_key r = (company_id r, doc_type r)"

definition rules_ok :: "compliance_rule list \<Rightarrow> bool" where
  "rules_ok rules = (distinct (map rule_id rules) \<and> distinct (map rule_key rules))"

section \<open>Example data\<close>

text \<open>Rows, requests and statements at which the theorems below are evaluated.\<close>

definition passport1 :: document where
  "passport1 =
     \<lparr>doc_id = ''d1'', employee_id = ''e1'', document_type = ''passport'',
      expiry_date = Some day_2026_02_19, is_primary = True, file_url = ''u'',
      file_name = ''n'', file_size = 1, file_type = ''pdf'', last_updated = 0, created_at = 0\<rparr>"

definition passport2 :: document where
  "passport2 =
     \<lparr>doc_id = ''d4'', employee_id = ''e1'', document_type = ''passport'',
      expiry_date = Some (day_2026_02_19 + 400), is_primary = True, file_url = ''p'',
      file_name = ''passport.pdf'', file_size = 1, file_type = ''pdf'',
      last_updated = 0, created_at = 0\<rparr>"

definition visa1 :: document where
  "visa1 =
     \<lparr>doc_id = ''d3'', employee_id = ''e1'', document_type = ''visa'',
      expiry_date = None, is_primary = False, file_url = ''v'',
      file_name = ''visa.pdf'', file_size = 1, file_type = ''pdf'',
      last_updated = 0, created_at = 0\<rparr>"

definition contract1 :: document where
  "contract1 =
     \<lparr>doc_id = ''d6'', employee_id = ''e1'', document_type = ''contract'',
      expiry_date = None, is_primary = False, file_url = ''c'',
      file_name = ''contract.pdf'', file_size = 1, file_type = ''pdf'',
      last_updated = 0, created_at = 0\<rparr>"

definition soon1 :: document where
  "soon1 =
     \<lparr>doc_id = ''d7'', employee_id = ''e2'', document_type = ''visa'',
      expiry_date = Some (day_2026_02_19 + 30), is_primary = True, file_url = ''c'',
      file_name = ''v.pdf'', file_size = 1, file_type = ''pdf'',
      last_updated = 0, created_at = 0\<rparr>"

definition db1 :: database where
  "db1 = \<lparr>employees = [''e1''], documents = [passport1]\<rparr>"

definition db2 :: database where
  "db2 = \<lparr>employees = [''e1''], documents = [visa1, passport2]\<rparr>"

definition db3 :: database where
  "db3 = \<lparr>employees = [''e1''], documents = [passport1, contract1]\<rparr>"

definition permit1 :: document where
  "permit1 =
     \<lparr>doc_id = ''d5'', employee_id = ''e1'', document_type = ''work_permit'',
      expiry_date = Some (day_2026_02_19 + 200), is_primary = False, file_url = ''w'',
      file_name = ''permit.pdf'', file_size = 1, file_type = ''pdf'',
      last_updated = 0, created_at = 0\<rparr>"


text \<open>On 2026-02-20: one active, two expiring soon, three expired, three not tracked.\<close>

definition db4 :: database where
  "db4 =
     \<lparr>employees = [''e1'', ''e2'', ''e3'', ''e4'', ''e5'', ''e6''],
      documents =
        [passport1, contract1, soon1, passport2\<lparr>employee_id := ''e3''\<rparr>, visa1, permit1,
         soon1\<lparr>doc_id := ''d10'', employee_id := ''e4'', expiry_date := Some (day_2026_02_19 + 1)\<rparr>,
         passport1\<lparr>doc_id := ''d11'', employee_id := ''e5'',
                    expiry_date := Some (day_2026_02_19 - 5)\<rparr>,
         passport1\<lparr>doc_id := ''d12'', employee_id := ''e6'',
                    expiry_date := Some (day_2026_02_19 - 400)\<rparr>]\<rparr>"


definition renew1 :: RenewRequest where
  "renew1 =
     \<lparr>rn_ExpiryDate = DateText 21000, rn_FileURL = [], rn_FileName = ''p2.pdf'',
      rn_FileSize = 0, rn_FileType = []\<rparr>"





definition emirates_id_rule :: compliance_rule where
  "emirates_id_rule = seed_row ''r3'' (seed_values ! 2)"

definition expired_emirates_id :: DocumentRecord where
  "expired_emirates_id = \<lparr>required_fields_set = True, expiryDate = Some day_2026_02_19\<rparr>"

definition ids7 :: "string list" where
  "ids7 = [''r1'', ''r2'', ''r3'', ''r4'', ''r5'', ''r6'', ''r7'']"

definition global_visa :: compliance_rule where
  "global_visa =
     \<lparr>rule_id = ''r8'', company_id = None, doc_type = ''visa'', grace_period_days = 30,
      fine_per_day = 50, fine_type = ''daily'', fine_cap = 0, is_mandatory = None\<rparr>"

definition company_visa :: compliance_rule where
  "company_visa =
     \<lparr>rule_id = ''r9'', company_id = Some ''c1'', doc_type = ''visa'', grace_period_days = 10,
      fine_per_day = 50, fine_type = ''daily'', fine_cap = 0, is_mandatory = Some True\<rparr>"

definition statements1 :: "statement list" where
  "statements1 =
     [SeedRules ids7, InsertRule global_visa, InsertRule company_visa,
      InsertRule (company_visa\<lparr>rule_id := ''r10''\<rparr>),
      UpdateRule ''r9'' (company_visa\<lparr>company_id := None\<rparr>)]"

section \<open>Lemmas on the documents table\<close>















subsection \<open>Every handler keeps the table well-formed\<close>














subsection \<open>Statements under the index\<close>




subsection \<open>The primary documents of an employee\<close>

lemma primaries_single:
  assumes "\<forall>e. length (primaries_of e docs) \<le> 1" and "d \<in> set docs" and "is_primary d"
  shows "primaries_of (employee_id d) docs = [d]"
proof -
  have m: "d \<in> set (primaries_of (employee_id d) docs)"
    using assms(2,3) by (simp add: primaries_of_def)
  have "length (primaries_of (employee_id d) docs) \<le> 1" using assms(1) by blast
  then show ?thesis using m by (cases "primaries_of (employee_id d) docs") auto
qed


section \<open>Lemmas on the dashboard counters\<close>

lemma filter_sum:
  "length (filter (where_active t) xs) + length (filter (where_expiring_soon t) xs)
     + length (filter (where_expired t) xs) = length (filter tracked xs)"
  by (induction xs)
    (auto simp: where_active_def where_expiring_soon_def where_expired_def tracked_def
      split: option.splits)


section \<open>Lemmas on the rules table\<close>

lemma emirates_id_rule_eq:
  "emirates_id_rule =
     \<lparr>rule_id = ''r3'', company_id = None, doc_type = ''emirates_id'', grace_period_days = 30,
      fine_per_day = 20, fine_type = ''daily'', fine_cap = 1000, is_mandatory = None\<rparr>"
  by (simp add: emirates_id_rule_def seed_row_def seed_values_def)

lemma violates_iff: "violates r x \<longleftrightarrow> rule_id x = rule_id r \<or> rule_key x = rule_key r"
  by (auto simp: violates_def rule_key_def)

lemma rules_ok_insert:
  assumes "rules_ok rules" and "insert_rule rules r = Some rules'"
  shows "rules_ok rules'"
proof -
  have nv: "\<forall>x\<in>set rules. \<not> violates r x" and eq: "rules' = rules @ [r]"
    using assms(2) by (auto simp: insert_rule_def list_ex_iff split: if_splits)
  have "rule_id r \<notin> set (map rule_id rules)"
  proof
    assume "rule_id r \<in> set (map rule_id rules)"
    then obtain x where "x \<in> set rules" "rule_id x = rule_id r" by auto
    then show False using nv violates_iff by blast
  qed
  moreover have "rule_key r \<notin> set (map rule_key rules)"
  proof
    assume "rule_key r \<in> set (map rule_key rules)"
    then obtain x where "x \<in> set rules" "rule_key x = rule_key r" by auto
    then show False using nv violates_iff by blast
  qed
  ultimately show ?thesis using assms(1) eq by (simp add: rules_ok_def)
qed

lemma rules_ok_inserts:
  "rules_ok rules \<Longrightarrow> insert_rules rules rs = Some rules' \<Longrightarrow> rules_ok rules'"
proof (induction rs arbitrary: rules)
  case Nil then show ?case by simp
next
  case (Cons r rs)
  then show ?case by (auto split: option.splits dest: rules_ok_insert)
qed

lemma rules_ok_filter: "rules_ok rules \<Longrightarrow> rules_ok (filter P rules)"
  by (simp add: rules_ok_def distinct_map_filter)

lemma map_replace_absent:
  "i \<notin> set (map rule_id rules) \<Longrightarrow> map (\<lambda>x. if rule_id x = i then r' else x) rules = rules"
  by (induction rules) auto

lemma rules_ok_update:
  assumes ok: "rules_ok rules" and u: "update_rule rules i r = Some rules'"
  shows "rules_ok rules'"
proof -
  let ?r = "r\<lparr>rule_id := i\<rparr>"
  let ?g = "\<lambda>x. if rule_id x = i then ?r else x"
  have nv: "\<not> list_ex (violates ?r) (filter (\<lambda>x. rule_id x \<noteq> i) rules)"
    and rs: "rules' = map ?g rules"
    using u by (auto simp: update_rule_def Let_def split: if_splits)
  show ?thesis
  proof (cases "i \<in> set (map rule_id rules)")
    case False
    then show ?thesis using ok rs by (simp add: map_replace_absent)
  next
    case True
    then obtain x where x: "x \<in> set rules" "rule_id x = i" by auto
    then obtain xs ys where sp: "rules = xs @ x # ys" by (meson split_list)
    have dist: "distinct (map rule_id (xs @ x # ys))" "distinct (map rule_key (xs @ x # ys))"
      using ok sp by (simp_all add: rules_ok_def)
    have "i \<notin> rule_id ` set xs" "i \<notin> rule_id ` set ys"
      using dist(1) x(2) by auto
    then have nx: "\<forall>y\<in>set xs. rule_id y \<noteq> i" "\<forall>y\<in>set ys. rule_id y \<noteq> i"
      by blast+
    then have mx: "map ?g xs = xs" "map ?g ys = ys" by (simp_all add: map_idI)
    have new: "rules' = xs @ ?r # ys" using rs sp mx x(2) by simp
    have fl: "filter (\<lambda>x. rule_id x \<noteq> i) rules = xs @ ys"
      using sp nx x(2) by simp
    have nk: "\<forall>y\<in>set (xs @ ys). rule_key y \<noteq> rule_key ?r"
      using nv fl by (auto simp: list_ex_iff violates_iff)
    have "distinct (map rule_id (xs @ ?r # ys))" using dist(1) x(2) by simp
    moreover have "distinct (map rule_key (xs @ ?r # ys))" using dist(2) nk by auto
    ultimately show ?thesis using new by (simp add: rules_ok_def)
  qed
qed

lemma rules_ok_seed: "rules_ok rules \<Longrightarrow> rules_ok (seed_rules rules ids)"
  by (auto simp: seed_rules_def split: option.splits dest: rules_ok_inserts)

lemma rules_ok_execute: "rules_ok rules \<Longrightarrow> rules_ok (execute rules s)"
  by (cases s) (auto simp: delete_rule_def delete_company_def rules_ok_filter rules_ok_seed
      split: option.splits dest: rules_ok_insert rules_ok_update)

lemma rules_ok_execute_all: "rules_ok rules \<Longrightarrow> rules_ok (execute_all rules stmts)"
  unfolding execute_all_def by (induction stmts arbitrary: rules) (simp_all add: rules_ok_execute)

lemma distinct_key_count:
  "distinct (map f xs) \<Longrightarrow> length (filter (\<lambda>x. f x = k) xs) \<le> 1"
proof (induction xs)
  case Nil
  then show ?case by simp
next
  case (Cons a xs)
  show ?case
  proof (cases "f a = k")
    case True
    then have "k \<notin> f ` set xs" using Cons.prems by simp
    then have "\<forall>x\<in>set xs. f x \<noteq> k" by blast
    then have "filter (\<lambda>x. f x = k) xs = []" by (simp add: filter_empty_conv)
    then show ?thesis using True by simp
  next
    case False
    then show ?thesis using Cons by simp
  qed
qed

section \<open>Lifecycle evaluation\<close>

text \<open>
  C1, as stated, fails on the code: the status query has no grace period. A document
  that expired on 2026-02-19 is \<open>'expired'\<close> ten days later and \<open>'expired'\<close> forty-five days
  later, where the five-step order with 30 grace days tells \<open>InGrace\<close> from
  \<open>PenaltyActive\<close>; the frontend helper, in a browser whose zone has a fixed offset,
  says \<open>'expired'\<close> as well.
\<close>

theorem C1_counterexample:
  "doc_status (day_2026_02_19 + 10) (Some day_2026_02_19) = ''expired''
   \<and> Evaluate_spec \<lparr>required_fields_set = True, expiryDate = Some day_2026_02_19\<rparr> 30
        (day_2026_02_19 + 10) = InGrace
   \<and> doc_status (day_2026_02_19 + 45) (Some day_2026_02_19) = ''expired''
   \<and> Evaluate_spec \<lparr>required_fields_set = True, expiryDate = Some day_2026_02_19\<rparr> 30
        (day_2026_02_19 + 45) = PenaltyActive
   \<and> getExpiryStatus differenceInDays_fixed_offset ((day_2026_02_19 + 10) * 86400000)
        (Some (day_2026_02_19 * 86400000)) = ''expired''"
  by (simp add: doc_status_def Evaluate_spec_def day_2026_02_19_def getExpiryStatus_def
      getDaysUntil_def differenceInDays_fixed_offset_def)

text \<open>
  C1, amended: for every document, status evaluation at the current date follows a
  fixed first-match order with no grace period. The backend query yields \<open>'none'\<close> if
  the expiry date is unset; else \<open>'expired'\<close> if the current date is after the expiry
  date; else \<open>'expiring'\<close> if the expiry date is at most 30 days ahead; else \<open>'valid'\<close>. So
  the evaluation yields exactly one of these four states, and a document past its
  expiry date is \<open>'expired'\<close> however long ago it expired.
\<close>

theorem C1_doc_status_first_match:
  "doc_status today None = ''none''
   \<and> (e < today \<longrightarrow> doc_status today (Some e) = ''expired'')
   \<and> (today \<le> e \<and> e - today \<le> 30 \<longrightarrow> doc_status today (Some e) = ''expiring'')
   \<and> (30 < e - today \<longrightarrow> doc_status today (Some e) = ''valid'')
   \<and> doc_status today x \<in> {''none'', ''expired'', ''expiring'', ''valid''}"
  by (auto simp add: doc_status_def split: option.splits)

theorem C1_doc_status_first_match_witness:
  "doc_status 100 None = ''none''
   \<and> doc_status 100 (Some 99) = ''expired''
   \<and> doc_status 100 (Some 130) = ''expiring''
   \<and> doc_status 100 (Some 131) = ''valid''"
  using C1_doc_status_first_match [of 100 99 None]
    C1_doc_status_first_match [of 100 130 None]
    C1_doc_status_first_match [of 100 131 None]
  by simp

section \<open>The status that stands for an employee\<close>

text \<open>
  C2, as stated, fails on the code: the status columns are read from the primary
  document alone. An employee with a visa that has no expiry date (\<open>Incomplete\<close>) and a
  valid primary passport is answered \<open>'valid'\<close>, where the priority order over all the
  documents gives \<open>Incomplete\<close>.
\<close>

theorem C2_counterexample:
  "map docStatus (employee_status_rows day_2026_02_19 db2 ''e1'') = [''valid'']
   \<and> Employee_GetByID day_2026_02_19 db2 ''e1'' =
       Inr \<lparr>docStatus = ''valid'', expiryDaysLeft = Some 400, primaryDocType = Some ''passport''\<rparr>
   \<and> map (\<lambda>d. Evaluate_spec (as_DocumentRecord d) 0 day_2026_02_19) (documents db2)
       = [Incomplete, Valid]
   \<and> aggregate_spec (map (\<lambda>d. Evaluate_spec (as_DocumentRecord d) 0 day_2026_02_19) (documents db2))
       = Incomplete"
  by (simp add: employee_status_rows_def Employee_GetByID_def db2_def visa1_def passport2_def
      left_join_primary_def primaries_of_def status_columns_of_def doc_status_def
      expiry_days_left_def day_2026_02_19_def Evaluate_spec_def as_DocumentRecord_def
      aggregate_spec_def priority_def)

text \<open>
  C2, amended: for every employee, the single status that stands for the employee is
  the status of the one document flagged primary for that employee, and \<open>'none'\<close> when
  the employee has no primary document; no other document of the employee enters it.
  The bound of one primary document for each employee is the one the unique index
  states.
\<close>

theorem C2_status_of_primary_document:
  assumes "e \<in> set (employees db)"
    and "\<forall>x. length (primaries_of x (documents db)) \<le> 1"
  shows "(primaries_of e (documents db) = [] \<longrightarrow>
            map docStatus (employee_status_rows today db e) = [''none''])
       \<and> (\<forall>d\<in>set (documents db). employee_id d = e \<and> is_primary d \<longrightarrow>
            map docStatus (employee_status_rows today db e) = [doc_status today (expiry_date d)])"
proof (intro conjI impI ballI)
  assume "primaries_of e (documents db) = []"
  then show "map docStatus (employee_status_rows today db e) = [''none'']"
    using assms(1)
    by (simp add: employee_status_rows_def left_join_primary_def status_columns_of_def
        doc_status_def)
next
  fix d assume d: "d \<in> set (documents db)" "employee_id d = e \<and> is_primary d"
  then have "primaries_of e (documents db) = [d]"
    using primaries_single[OF assms(2) d(1)] by auto
  then show "map docStatus (employee_status_rows today db e) = [doc_status today (expiry_date d)]"
    using assms(1)
    by (simp add: employee_status_rows_def left_join_primary_def status_columns_of_def)
qed

theorem C2_status_of_primary_document_witness:
  "map docStatus (employee_status_rows day_2026_02_19 db2 ''e1'')
     = [doc_status day_2026_02_19 (Some (day_2026_02_19 + 400))]"
proof -
  have a: "''e1'' \<in> set (employees db2)" by (simp add: db2_def)
  have b: "\<forall>x. length (primaries_of x (documents db2)) \<le> 1"
    by (simp add: db2_def primaries_of_def visa1_def passport2_def)
  have c: "passport2 \<in> set (documents db2)" by (simp add: db2_def)
  have d: "employee_id passport2 = ''e1'' \<and> is_primary passport2" by (simp add: passport2_def)
  have "map docStatus (employee_status_rows day_2026_02_19 db2 ''e1'')
          = [doc_status day_2026_02_19 (expiry_date passport2)]"
    using C2_status_of_primary_document[OF a b, of day_2026_02_19] c d by blast
  then show ?thesis by (simp add: passport2_def)
qed

section \<open>Fines\<close>

text \<open>
  C3: for a document in state \<open>PenaltyActive\<close> under a rule of fine type \<open>daily\<close>, the
  accrued fine is the rate times the days overdue beyond grace, these floored at
  zero, then clamped to \<open>[0, fineCap]\<close> when \<open>fineCap > 0\<close> and left as it is when
  \<open>fineCap = 0\<close>. The calculator is the specification's; the rule is a row of the
  rules table.
\<close>

theorem C3_daily_fine:
  assumes "fine_type rule = ''daily''" and "expiryDate doc = Some e"
  shows "Accrue doc rule PenaltyActive asOfDate =
           (let raw = fine_per_day rule * of_int (max 0 (asOfDate - (e + grace_period_days rule)))
            in if fine_cap rule > 0 then min (fine_cap rule) (max 0 raw) else raw)"
  using assms
  by (simp add: Accrue_def raw_fine_def clamp_fine_def days_overdue_beyond_grace_def Let_def)

text \<open>
  The scenario of C3: under the seeded Emirates ID rule (30 grace days, 20 a day, cap
  1000), 60 days beyond grace give 1000 and not 1200; with the cap set to 0 they give
  1200.
\<close>

theorem C3_daily_fine_witness:
  "Accrue expired_emirates_id emirates_id_rule PenaltyActive (day_2026_02_19 + 30 + 60) = 1000
   \<and> fine_per_day emirates_id_rule * of_int 60 = 1200
   \<and> Accrue expired_emirates_id (emirates_id_rule\<lparr>fine_cap := 0\<rparr>) PenaltyActive
        (day_2026_02_19 + 30 + 60) = 1200"
  using C3_daily_fine[of emirates_id_rule expired_emirates_id day_2026_02_19
      "day_2026_02_19 + 30 + 60"]
    C3_daily_fine[of "emirates_id_rule\<lparr>fine_cap := 0\<rparr>" expired_emirates_id day_2026_02_19
      "day_2026_02_19 + 30 + 60"]
  by (simp add: emirates_id_rule_eq expired_emirates_id_def Let_def)

text \<open>
  C4, as stated, fails on the code in one point: the state the code reports for a
  document ten days past its expiry date is \<open>'expired'\<close>, with \<open>-10\<close> days left; there is
  no \<open>InGrace\<close> among its states.
\<close>

theorem C4_counterexample:
  "status_columns_of (day_2026_02_19 + 10) (Some passport1) =
     \<lparr>docStatus = ''expired'', expiryDaysLeft = Some (- 10), primaryDocType = Some ''passport''\<rparr>
   \<and> Evaluate_spec (as_DocumentRecord passport1) 30 (day_2026_02_19 + 10) = InGrace"
  by (simp add: status_columns_of_def passport1_def doc_status_def expiry_days_left_def
      day_2026_02_19_def Evaluate_spec_def as_DocumentRecord_def)

text \<open>
  C4, amended: for every complete document past its expiry date and within the grace
  days of its rule, which is the specification's \<open>InGrace\<close>, the fine amount is zero
  and \<open>graceDaysRemaining = graceDays - (asOfDate - expiryDate)\<close> is exposed, while the
  status the code reports for it is \<open>'expired'\<close>, with \<open>expiryDate - asOfDate\<close> days left.
  Fine and grace days are the specification's calculator; the status is the code's.
\<close>

theorem C4_in_grace_no_fine:
  assumes "expiryDate doc = Some e" and "required_fields_set doc"
    and "e < asOfDate" and "asOfDate \<le> e + grace_period_days rule"
  shows "doc_status asOfDate (expiryDate doc) = ''expired''
       \<and> expiry_days_left asOfDate (expiryDate doc) = Some (e - asOfDate)
       \<and> Evaluate_spec doc (grace_period_days rule) asOfDate = InGrace
       \<and> Accrue doc rule (Evaluate_spec doc (grace_period_days rule) asOfDate) asOfDate = 0
       \<and> graceDaysRemaining doc rule (Evaluate_spec doc (grace_period_days rule) asOfDate) asOfDate
           = Some (grace_period_days rule - (asOfDate - e))"
  using assms
  by (simp add: doc_status_def expiry_days_left_def Evaluate_spec_def Accrue_def
      graceDaysRemaining_def)

text \<open>The scenario of C4: expiry 2026-02-19, 30 grace days, evaluated 10 days later.\<close>

theorem C4_in_grace_no_fine_witness:
  "doc_status (day_2026_02_19 + 10) (Some day_2026_02_19) = ''expired''
   \<and> Evaluate_spec expired_emirates_id 30 (day_2026_02_19 + 10) = InGrace
   \<and> Accrue expired_emirates_id emirates_id_rule InGrace (day_2026_02_19 + 10) = 0
   \<and> graceDaysRemaining expired_emirates_id emirates_id_rule InGrace (day_2026_02_19 + 10)
       = Some 20"
proof -
  have p: "expiryDate expired_emirates_id = Some day_2026_02_19"
    "required_fields_set expired_emirates_id"
    "day_2026_02_19 < day_2026_02_19 + 10"
    "day_2026_02_19 + 10 \<le> day_2026_02_19 + grace_period_days emirates_id_rule"
    by (simp_all add: emirates_id_rule_eq expired_emirates_id_def)
  note c = C4_in_grace_no_fine[OF p]
  have s: "Evaluate_spec expired_emirates_id (grace_period_days emirates_id_rule)
             (day_2026_02_19 + 10) = InGrace"
    using c by blast
  have g: "grace_period_days emirates_id_rule = 30" by (simp add: emirates_id_rule_eq)
  show ?thesis using c[unfolded s] s by (simp add: g expired_emirates_id_def)
qed

section \<open>Uniqueness of compliance rules\<close>

text \<open>
  C5: in every state of the rules table reached from the empty table by inserts,
  updates, deletes, company deletions and the seed, each document type has at most
  one global rule (company NULL), and each pair of company and document type has at
  most one rule.
\<close>

theorem C5_rules_unique:
  "length (global_rules t (execute_all [] stmts)) \<le> 1
   \<and> length (company_rules c t (execute_all [] stmts)) \<le> 1"
proof -
  have "rules_ok (execute_all [] stmts)"
    by (rule rules_ok_execute_all) (simp add: rules_ok_def)
  then have d: "distinct (map rule_key (execute_all [] stmts))"
    by (simp add: rules_ok_def)
  have g: "global_rules t rs = filter (\<lambda>r. rule_key r = (None, t)) rs" for rs
    by (simp add: global_rules_def rule_key_def)
  have c: "company_rules c t rs = filter (\<lambda>r. rule_key r = (Some c, t)) rs" for rs
    by (simp add: company_rules_def rule_key_def)
  show ?thesis unfolding g c using distinct_key_count[OF d] by simp
qed

text \<open>
  At work: after the seed, a second global visa rule is refused, a company visa rule
  is accepted, a second one for the same company is refused, and so is the update
  that would turn the company rule into a global one.
\<close>

theorem C5_rules_unique_witness:
  "map (\<lambda>r. (rule_id r, company_id r, doc_type r)) (execute_all [] statements1) =
     [(''r1'', None, ''passport''), (''r2'', None, ''visa''), (''r3'', None, ''emirates_id''),
      (''r4'', None, ''work_permit''), (''r5'', None, ''health_insurance''),
      (''r6'', None, ''iloe_insurance''), (''r7'', None, ''medical_fitness''),
      (''r9'', Some ''c1'', ''visa'')]
   \<and> length (global_rules ''visa'' (execute_all [] statements1)) \<le> 1
   \<and> length (company_rules ''c1'' ''visa'' (execute_all [] statements1)) \<le> 1"
proof -
  have "map (\<lambda>r. (rule_id r, company_id r, doc_type r)) (execute_all [] statements1) =
     [(''r1'', None, ''passport''), (''r2'', None, ''visa''), (''r3'', None, ''emirates_id''),
      (''r4'', None, ''work_permit''), (''r5'', None, ''health_insurance''),
      (''r6'', None, ''iloe_insurance''), (''r7'', None, ''medical_fitness''),
      (''r9'', Some ''c1'', ''visa'')]"
    by (simp add: statements1_def execute_all_def seed_rules_def ids7_def seed_values_def
        seed_row_def insert_rule_def violates_def global_visa_def company_visa_def
        update_rule_def Let_def)
  then show ?thesis using C5_rules_unique[of "''visa''" statements1 "''c1''"] by simp
qed

section \<open>Determinism and the clock\<close>

text \<open>
  C6, as stated, fails on the code: the evaluation reads the clock itself. The same
  request on the same tables is answered \<open>'valid'\<close> on 2026-02-19 and \<open>'expired'\<close> 500 days
  later. The frontend helper, given the same expiry date, differs likewise, and it
  differs within one day: for a document expiring in eight days it says \<open>'warning'\<close> at
  midnight and \<open>'urgent'\<close> a millisecond later (browser in a zone of fixed offset).
\<close>

theorem C6_counterexample:
  "Employee_GetByID day_2026_02_19 db2 ''e1''
     \<noteq> Employee_GetByID (day_2026_02_19 + 500) db2 ''e1''
   \<and> getExpiryStatus differenceInDays_fixed_offset (day_2026_02_19 * 86400000)
        (Some ((day_2026_02_19 + 400) * 86400000))
     \<noteq> getExpiryStatus differenceInDays_fixed_offset ((day_2026_02_19 + 500) * 86400000)
          (Some ((day_2026_02_19 + 400) * 86400000))
   \<and> getExpiryStatus differenceInDays_fixed_offset 0 (Some 691200000) = ''warning''
   \<and> getExpiryStatus differenceInDays_fixed_offset 1 (Some 691200000) = ''urgent''"
  by (simp add: employee_status_rows_def Employee_GetByID_def db2_def visa1_def passport2_def
      left_join_primary_def primaries_of_def status_columns_of_def doc_status_def
      expiry_days_left_def day_2026_02_19_def getExpiryStatus_def getDaysUntil_def
      differenceInDays_fixed_offset_def)

text \<open>
  C6, amended: status evaluation takes no asOfDate from its caller; it reads the
  current date from the clock itself (\<open>CURRENT_DATE\<close> in the backend queries,
  \<open>new Date()\<close> in the frontend helper). The backend status and days left are a
  deterministic function of the document's expiry date and \<open>CURRENT_DATE\<close>, and depend
  on the two only through their difference in days, so that two backend evaluations
  of the same document on the same date yield identical states; a document without
  expiry date has the same status on every date. The status of the frontend helper
  is determined by the number of days that date-fns counts between the expiry date
  and the reading of the browser clock.
\<close>

theorem C6_status_depends_on_days_left:
  "(e1 - t1 = e2 - t2 \<longrightarrow>
      doc_status t1 (Some e1) = doc_status t2 (Some e2)
      \<and> expiry_days_left t1 (Some e1) = expiry_days_left t2 (Some e2))
   \<and> doc_status t1 None = doc_status t2 None
   \<and> (differenceInDays d1 n1 = differenceInDays d2 n2 \<longrightarrow>
        getExpiryStatus differenceInDays n1 (Some d1)
          = getExpiryStatus differenceInDays n2 (Some d2))"
  by (auto simp: doc_status_def expiry_days_left_def getExpiryStatus_def getDaysUntil_def)

theorem C6_status_depends_on_days_left_witness:
  "doc_status 100 (Some 110) = doc_status 200 (Some 210)
   \<and> expiry_days_left 100 (Some 110) = expiry_days_left 200 (Some 210)
   \<and> getExpiryStatus differenceInDays_fixed_offset 5 (Some 86400005)
       = getExpiryStatus differenceInDays_fixed_offset 0 (Some 86400000)"
proof -
  have "differenceInDays_fixed_offset 86400005 5 = differenceInDays_fixed_offset 86400000 0"
    by (simp add: differenceInDays_fixed_offset_def)
  then show ?thesis
    using C6_status_depends_on_days_left
      [of 110 100 210 200 differenceInDays_fixed_offset 86400005 5 86400000 0]
    by simp
qed

section \<open>Renewal\<close>

text \<open>
  C7: the handler is written to insert the renewed document and to keep the original,
  as its comment says, but its \<open>INSERT\<close> never resolves its \<open>RETURNING\<close> list. Every
  renewal leaves the tables as they were and is answered with an error: no new record
  is inserted for any document.
\<close>

theorem C7_Renew_inserts_nothing:
  "fst (Renew db now new_id oldID body) = db
   \<and> (\<exists>err. snd (Renew db now new_id oldID body) = Inl err)"
  by (simp add: Renew_def insert_returning_def returning_resolves_def Let_def
      split: option.splits)

text \<open>At the failing input: the primary passport of \<open>db1\<close>, renewed to a valid new date.\<close>

theorem C7_Renew_inserts_nothing_witness:
  "Renew db1 7 ''d2'' ''d1'' (Some renew1) =
     (db1, Inl (JSONError 500 ''Failed to create renewed document''))
   \<and> find_document db1 ''d1'' = Some passport1
   \<and> documents (fst (Renew db1 7 ''d2'' ''d1'' (Some renew1))) = [passport1]"
  using C7_Renew_inserts_nothing[of db1 7 "''d2''" "''d1''" "Some renew1"]
  by (simp add: Renew_def db1_def passport1_def renew1_def find_document_def to_date_def
      insert_returning_def returning_resolves_def unset_primary_of_employee_def Let_def)

section \<open>The primary document\<close>



text \<open>
  C9: for every document whose expiry date is null, \<open>TogglePrimary\<close> answers 400,
  \<open>Cannot set as primary: document has no expiry date\<close>, and leaves the tables as they
  were.
\<close>

theorem C9_TogglePrimary_needs_expiry:
  assumes "find_document db i = Some d" and "expiry_date d = None" and "i \<noteq> []"
  shows "TogglePrimary db i =
           (db, Inl (JSONError 400 ''Cannot set as primary: document has no expiry date''))"
  using assms by (simp add: TogglePrimary_def)

theorem C9_TogglePrimary_needs_expiry_witness:
  "TogglePrimary db3 ''d6'' =
     (db3, Inl (JSONError 400 ''Cannot set as primary: document has no expiry date''))"
proof -
  have "find_document db3 ''d6'' = Some contract1"
    by (simp add: find_document_def db3_def passport1_def contract1_def)
  moreover have "expiry_date contract1 = None" by (simp add: contract1_def)
  ultimately show ?thesis
    using C9_TogglePrimary_needs_expiry[of db3 "''d6''" contract1] by simp
qed

section \<open>The dashboard counters\<close>

text \<open>
  C10: the three document counters partition the primary documents that have an
  expiry date. \<open>expired\<close> counts those with expiry before today, \<open>expiringSoon\<close> those
  from today to today + 30 days, \<open>activeDocuments\<close> those after today + 30 days; each
  such document is in exactly one bucket, every other document in none, and a
  document expiring within the next 30 days is not counted as active.
\<close>

theorem C10_counters_partition:
  "expired (GetMetrics today db)
     = length (filter (\<lambda>d. is_primary d \<and> (\<exists>e. expiry_date d = Some e \<and> e < today))
                (documents db))
   \<and> expiringSoon (GetMetrics today db)
     = length (filter (\<lambda>d. is_primary d
                            \<and> (\<exists>e. expiry_date d = Some e \<and> today \<le> e \<and> e \<le> today + 30))
                (documents db))
   \<and> activeDocuments (GetMetrics today db)
     = length (filter (\<lambda>d. is_primary d \<and> (\<exists>e. expiry_date d = Some e \<and> e > today + 30))
                (documents db))
   \<and> activeDocuments (GetMetrics today db) + expiringSoon (GetMetrics today db)
     + expired (GetMetrics today db)
     = length (filter (\<lambda>d. is_primary d \<and> expiry_date d \<noteq> None) (documents db))
   \<and> activeDocuments (GetMetrics today db) + expiringSoon (GetMetrics today db)
     + expired (GetMetrics today db) = length (filter tracked (documents db))
   \<and> buckets today d = (if tracked d then 1 else 0)
   \<and> (where_active today d \<longleftrightarrow>
        tracked d \<and> (\<exists>e. expiry_date d = Some e \<and> e > today + 30))
   \<and> (where_expiring_soon today d \<longleftrightarrow>
        tracked d \<and> (\<exists>e. expiry_date d = Some e \<and> today \<le> e \<and> e \<le> today + 30))
   \<and> (where_expired today d \<longleftrightarrow>
        tracked d \<and> (\<exists>e. expiry_date d = Some e \<and> e < today))
   \<and> \<not> (where_expiring_soon today d \<and> where_active today d)"
proof -
  have x: "where_expired today = (\<lambda>d. is_primary d \<and> (\<exists>e. expiry_date d = Some e \<and> e < today))"
    by (rule ext) (auto simp: where_expired_def split: option.splits)
  have s: "where_expiring_soon today
             = (\<lambda>d. is_primary d \<and> (\<exists>e. expiry_date d = Some e \<and> today \<le> e \<and> e \<le> today + 30))"
    by (rule ext) (auto simp: where_expiring_soon_def split: option.splits)
  have a: "where_active today
             = (\<lambda>d. is_primary d \<and> (\<exists>e. expiry_date d = Some e \<and> e > today + 30))"
    by (rule ext) (auto simp: where_active_def split: option.splits)
  have t: "tracked = (\<lambda>d. is_primary d \<and> expiry_date d \<noteq> None)"
    by (rule ext) (simp add: tracked_def)
  have c: "expired (GetMetrics today db) = length (filter (where_expired today) (documents db))"
    "expiringSoon (GetMetrics today db)
       = length (filter (where_expiring_soon today) (documents db))"
    "activeDocuments (GetMetrics today db) = length (filter (where_active today) (documents db))"
    by (simp_all add: GetMetrics_def)
  have sum: "activeDocuments (GetMetrics today db) + expiringSoon (GetMetrics today db)
     + expired (GetMetrics today db) = length (filter tracked (documents db))"
    by (simp add: c filter_sum)
  have b: "buckets today d = (if tracked d then 1 else 0)"
    by (auto simp: buckets_def where_active_def where_expiring_soon_def where_expired_def
        tracked_def split: option.splits)
  have w: "where_active today d \<longleftrightarrow>
             tracked d \<and> (\<exists>e. expiry_date d = Some e \<and> e > today + 30)"
    "where_expiring_soon today d \<longleftrightarrow>
       tracked d \<and> (\<exists>e. expiry_date d = Some e \<and> today \<le> e \<and> e \<le> today + 30)"
    "where_expired today d \<longleftrightarrow> tracked d \<and> (\<exists>e. expiry_date d = Some e \<and> e < today)"
    "\<not> (where_expiring_soon today d \<and> where_active today d)"
    by (auto simp: where_active_def where_expiring_soon_def where_expired_def tracked_def
        split: option.splits)
  show ?thesis
    using c[unfolded x s a] sum sum[unfolded t] b w by (intro conjI)
qed

theorem C10_counters_partition_witness:
  "GetMetrics (day_2026_02_19 + 1) db4 =
     \<lparr>totalEmployees = 6, activeDocuments = 1, expiringSoon = 2, expired = 3\<rparr>
   \<and> length (filter tracked (documents db4)) = 6
   \<and> \<not> where_active (day_2026_02_19 + 1) soon1"
  using C10_counters_partition[of "day_2026_02_19 + 1" db4 soon1]
  by (simp add: GetMetrics_def db4_def passport1_def passport2_def contract1_def soon1_def
      visa1_def permit1_def where_active_def where_expiring_soon_def where_expired_def
      tracked_def day_2026_02_19_def)

end
